theory Spec2Isabelle
  imports Complex_Main "HOL-Library.AList"
begin

section \<open>The trust-rank engine of mboard/views.py\<close>

text \<open>
  The development embeds the rank engine of \<^verbatim>\<open>mboard/views.py\<close>: the graph
  that \<^verbatim>\<open>refresh_rank\<close> builds from the Post and Rating tables, the
  propagation wrapper \<^verbatim>\<open>calc_rep\<close>, the persistence of ranks, the
  annotation and filtering of listings, and the vote endpoint \<^verbatim>\<open>post_vote\<close>.
  Database tables are lists of rows, in the order \<^verbatim>\<open>objects.all()\<close> yields
  them. An exception of the source is a value of the type \<open>error\<close>.
\<close>

subsection \<open>Tuning constants\<close>

definition POST_TO_USER_VOTE :: int where
  "POST_TO_USER_VOTE = 77777"

definition MINIMAL_AUTHOR_VOTE :: int where
  "MINIMAL_AUTHOR_VOTE = 1"

definition NEGATIVE_VOTE_AMPLIFICATION_COEFFICIENT :: int where
  "NEGATIVE_VOTE_AMPLIFICATION_COEFFICIENT = 10"

text \<open>Ranks are Python floats; they are read here as the real numbers they denote, and
  only compared, never computed with. The threshold is the float that the literal
  \<^verbatim>\<open>-0.01\<close> denotes, which is a little below -1/100.\<close>

definition SHADOWBAN_THRESHOLD :: real where
  "SHADOWBAN_THRESHOLD = - (5764607523034235 / 2 ^ 59)"

subsection \<open>Tables\<close>

type_synonym session_key = string
type_synonym post_id = int

text \<open>Time in microseconds, the resolution of a Python \<^verbatim>\<open>datetime\<close>.\<close>

type_synonym time = int

definition timedelta_hours :: "int \<Rightarrow> time" where
  "timedelta_hours h = h * 3600000000"

text \<open>A row of Post: \<open>session\<close> is the creator, \<open>thread\<close> the parent thread
  (\<open>None\<close> for a thread's opening post), \<open>board\<close> the board's link.\<close>

record post =
  pk :: post_id
  session :: session_key
  thread :: "post_id option"
  board :: string

record rating =
  user :: session_key
  target :: post_id
  rank :: real
  vote :: int

record calc_time =
  ct_user :: session_key
  rank_calc_time :: time

text \<open>Modelled from the spec: \<^verbatim>\<open>mboard/models.py\<close> is not among the sources,
  so the defaults of the fields of a new Rating row are taken from the specification
  (a RankEntry is created with vote 0, and an uncomputed rank reads as 0).\<close>

definition Rating_default_vote :: int where
  "Rating_default_vote = 0"

definition Rating_default_rank :: real where
  "Rating_default_rank = 0"

record state =
  sessions :: "session_key list"
  boards :: "string list"
  posts :: "post list"
  ratings :: "rating list"
  calc_times :: "calc_time list"

subsection \<open>The graph (networkx.DiGraph, as far as the code uses it)\<close>

datatype node = SessionNode session_key | PostNode post_id

record graph =
  nodes :: "node list"
  edges :: "node \<times> node \<rightharpoonup> int"

definition DiGraph :: graph where
  "DiGraph = \<lparr>nodes = [], edges = Map.empty\<rparr>"

definition add_node :: "node \<Rightarrow> node list \<Rightarrow> node list" where
  "add_node n ns = (if n \<in> set ns then ns else ns @ [n])"

text \<open>\<^verbatim>\<open>G.add_edge(u, v, weight=w)\<close>: both ends become nodes when they are not
  yet, and the weight of an edge already there is overwritten.\<close>

definition add_edge :: "node \<Rightarrow> node \<Rightarrow> int \<Rightarrow> graph \<Rightarrow> graph" where
  "add_edge u v w G =
     \<lparr>nodes = add_node v (add_node u (nodes G)), edges = (edges G)((u, v) \<mapsto> w)\<rparr>"

subsection \<open>The build step of refresh_rank\<close>

text \<open>The weight of a Rating row's edge:
  \<^verbatim>\<open>node.vote if node.vote >= 0.0 else node.vote * NEGATIVE_VOTE_AMPLIFICATION_COEFFICIENT\<close>.\<close>

definition vote_weight :: "int \<Rightarrow> int" where
  "vote_weight v = (if v \<ge> 0 then v else v * NEGATIVE_VOTE_AMPLIFICATION_COEFFICIENT)"

text \<open>\<^verbatim>\<open>for node in Post.objects.all()\<close>: the edge of a post into its creator,
  then the creator's default edge into the post.\<close>

fun add_post_edges :: "post list \<Rightarrow> graph \<Rightarrow> graph" where
  "add_post_edges [] G = G"
| "add_post_edges (p # ps) G =
     add_post_edges ps
       (add_edge (SessionNode (session p)) (PostNode (pk p)) MINIMAL_AUTHOR_VOTE
         (add_edge (PostNode (pk p)) (SessionNode (session p)) POST_TO_USER_VOTE G))"

text \<open>\<^verbatim>\<open>for node in Rating.objects.all()\<close>: one edge per row, from the row's user
  to the row's target.\<close>

fun add_rating_edges :: "rating list \<Rightarrow> graph \<Rightarrow> graph" where
  "add_rating_edges [] G = G"
| "add_rating_edges (r # rs) G =
     add_rating_edges rs
       (add_edge (SessionNode (user r)) (PostNode (target r)) (vote_weight (vote r)) G)"

text \<open>The pair a Rating row is about; the code reaches a row only through
  \<^verbatim>\<open>get_or_create\<close> and \<^verbatim>\<open>update_or_create\<close> on this pair.\<close>

definition rating_key :: "rating \<Rightarrow> session_key \<times> post_id" where
  "rating_key r = (user r, target r)"

definition build_graph :: "post list \<Rightarrow> rating list \<Rightarrow> graph" where
  "build_graph ps rs = add_rating_edges rs (add_post_edges ps DiGraph)"

subsection \<open>calc_rep\<close>

text \<open>The propagation routine \<^verbatim>\<open>BL_PHT\<close> comes from
  \<^verbatim>\<open>libs.meritrank.trust\<close>, which is not among the sources; it is a parameter:
  \<open>bl_pht G seed\<close> is the object \<^verbatim>\<open>BL_PHT(graph, seed_node)\<close>, and applying
  it to two nodes is its \<^verbatim>\<open>compute\<close>.\<close>

type_synonym bl_pht = "graph \<Rightarrow> node \<Rightarrow> node \<Rightarrow> node \<Rightarrow> real"

text \<open>The dictionary \<^verbatim>\<open>reputation\<close> keeps insertion order; an association list
  updated with \<^const>\<open>AList.update\<close> does the same.\<close>

fun calc_rep_loop ::
  "(node \<Rightarrow> node \<Rightarrow> real) \<Rightarrow> node \<Rightarrow> node list \<Rightarrow> (node \<times> real) list \<Rightarrow> (node \<times> real) list"
where
  "calc_rep_loop ppr seed_node [] reputation = reputation"
| "calc_rep_loop ppr seed_node (n # ns) reputation =
     calc_rep_loop ppr seed_node ns
       (if n \<noteq> seed_node then AList.update n (ppr seed_node n) reputation else reputation)"

definition calc_rep :: "bl_pht \<Rightarrow> graph \<Rightarrow> node \<Rightarrow> (node \<times> real) list" where
  "calc_rep BL_PHT G seed_node =
     (let ppr = BL_PHT G seed_node in calc_rep_loop ppr seed_node (nodes G) [])"

subsection \<open>Requests, settings and errors\<close>

text \<open>\<open>session_key\<close> is \<^verbatim>\<open>request.session.session_key\<close>, \<open>None\<close> when the
  request carries no session; \<open>GET\<close> is the query string.\<close>

record request =
  session_key :: "session_key option"
  GET :: "string \<rightharpoonup> string"

text \<open>What a request finds around it: the clock (the calls of \<^verbatim>\<open>timezone.now()\<close>
  within one request are read as one instant), \<^verbatim>\<open>settings.RANK_DEBUG\<close>, the
  propagation routine, and the key \<^verbatim>\<open>request.session.create()\<close> draws.\<close>

record env =
  now :: time
  RANK_DEBUG :: bool
  BL_PHT :: bl_pht
  new_session_key :: session_key

datatype error =
    MultiValueDictKeyError
  | ValueError
  | Post_DoesNotExist
  | Session_DoesNotExist
  | Rating_DoesNotExist
  | Http404

subsection \<open>refresh_rank\<close>

text \<open>\<^verbatim>\<open>CalcTime.objects.get_or_create(user=user, defaults={'user': user})\<close>: the row
  of the user and whether it was created just now. The default of
  \<^verbatim>\<open>rank_calc_time\<close> is declared in \<^verbatim>\<open>mboard/models.py\<close>, which is not
  among the sources; it is the first argument here, and \<^verbatim>\<open>refresh_rank\<close> passes
  the current time. No result depends on the choice: a created row forces the
  recomputation, which stamps the current time.\<close>

definition CalcTime_get_or_create ::
  "time \<Rightarrow> session_key \<Rightarrow> calc_time list \<Rightarrow> calc_time list \<times> calc_time \<times> bool"
where
  "CalcTime_get_or_create t u cts =
     (case find (\<lambda>c. ct_user c = u) cts of
        Some obj \<Rightarrow> (cts, obj, False)
      | None \<Rightarrow>
          (let obj = \<lparr>ct_user = u, rank_calc_time = t\<rparr> in (cts @ [obj], obj, True)))"

text \<open>\<^verbatim>\<open>Rating.objects.update_or_create(user=user, target=target, defaults={'rank': rank})\<close>:
  the row of the pair gets the rank; when there is none, a row is created with the rank
  and the default vote.\<close>

fun Rating_update_or_create ::
  "session_key \<Rightarrow> post_id \<Rightarrow> real \<Rightarrow> rating list \<Rightarrow> rating list"
where
  "Rating_update_or_create u t rk [] =
     [\<lparr>user = u, target = t, rank = rk, vote = Rating_default_vote\<rparr>]"
| "Rating_update_or_create u t rk (r # rs) =
     (if user r = u \<and> target r = t then r\<lparr>rank := rk\<rparr> # rs
      else r # Rating_update_or_create u t rk rs)"

text \<open>\<^verbatim>\<open>for target, rank in rep.items()\<close>: the seed is always a Session, so only
  the class of the target decides whether the entry is saved.\<close>

fun save_ranks :: "session_key \<Rightarrow> (node \<times> real) list \<Rightarrow> rating list \<Rightarrow> rating list" where
  "save_ranks u [] rs = rs"
| "save_ranks u ((tgt, rk) # rep) rs =
     (case tgt of
        PostNode t \<Rightarrow> save_ranks u rep (Rating_update_or_create u t rk rs)
      | SessionNode k \<Rightarrow> save_ranks u rep rs)"

text \<open>The session of the request: the one stored under the request's key, or a new
  one when there is none.\<close>

definition request_session :: "env \<Rightarrow> request \<Rightarrow> state \<Rightarrow> state \<times> session_key" where
  "request_session e req s =
     (case session_key req of
        Some k \<Rightarrow>
          if k \<in> set (sessions s) then (s, k)
          else (s\<lparr>sessions := sessions s @ [new_session_key e]\<rparr>, new_session_key e)
      | None \<Rightarrow> (s\<lparr>sessions := sessions s @ [new_session_key e]\<rparr>, new_session_key e))"

text \<open>The test of the early return, with the source's own name for it:
  \<^verbatim>\<open>cache_expired = obj.rank_calc_time + timedelta(hours=1) > timezone.now()\<close>.\<close>

definition cache_expired :: "env \<Rightarrow> calc_time \<Rightarrow> bool" where
  "cache_expired e obj = (rank_calc_time obj + timedelta_hours 1 > now e)"

text \<open>The recomputation: build, propagate, save the ranks, stamp the time.\<close>

definition recompute :: "env \<Rightarrow> session_key \<Rightarrow> state \<Rightarrow> state" where
  "recompute e u s =
     (let G = build_graph (posts s) (ratings s);
          rep = calc_rep (BL_PHT e) G (SessionNode u);
          s' = s\<lparr>ratings := save_ranks u rep (ratings s)\<rparr>
      in s'\<lparr>calc_times :=
              map (\<lambda>c. if ct_user c = u then c\<lparr>rank_calc_time := now e\<rparr> else c)
                (calc_times s')\<rparr>)"

definition refresh_rank :: "env \<Rightarrow> request \<Rightarrow> state \<Rightarrow> state \<times> session_key" where
  "refresh_rank e req s =
     (let (s1, u) = request_session e req s;
          (cts, obj, created) = CalcTime_get_or_create (now e) u (calc_times s1);
          s2 = s1\<lparr>calc_times := cts\<rparr>
      in if \<not> cache_expired e obj \<and> \<not> created \<and> \<not> RANK_DEBUG e then (s2, u)
         else (recompute e u s2, u))"

subsection \<open>Annotation of posts with the viewer's rank and vote\<close>

record annotated =
  post_of :: post
  ann_rank :: real
  ann_vote :: "int option"

text \<open>\<^verbatim>\<open>Rating.objects.filter(user=user, target=OuterRef('pk'))\<close>, read as a scalar
  subquery: the row of the pair, \<open>None\<close> (SQL NULL) when there is none.\<close>

definition Rating_row :: "rating list \<Rightarrow> session_key \<Rightarrow> post_id \<Rightarrow> rating option" where
  "Rating_row rs u t = find (\<lambda>r. user r = u \<and> target r = t) rs"

text \<open>\<^verbatim>\<open>Coalesce(x, 0.0)\<close>.\<close>

definition Coalesce :: "real option \<Rightarrow> real \<Rightarrow> real" where
  "Coalesce x d = (case x of None \<Rightarrow> d | Some v \<Rightarrow> v)"

definition annotate_row :: "rating list \<Rightarrow> session_key \<Rightarrow> post \<Rightarrow> annotated" where
  "annotate_row rs u p =
     \<lparr>post_of = p,
      ann_rank = Coalesce (map_option rank (Rating_row rs u (pk p))) 0,
      ann_vote = map_option vote (Rating_row rs u (pk p))\<rparr>"

definition multi_annotate :: "rating list \<Rightarrow> session_key \<Rightarrow> post list \<Rightarrow> annotated list" where
  "multi_annotate rs u threads = map (annotate_row rs u) threads"

text \<open>\<^verbatim>\<open>single_annotate\<close>: the opening post of a thread page gets rank and vote
  only for a viewer who is not its creator; \<^verbatim>\<open>Rating.objects.get\<close> raises when
  the pair has no row.\<close>

definition single_annotate ::
  "rating list \<Rightarrow> session_key \<Rightarrow> post \<Rightarrow> error + post \<times> (real \<times> int) option"
where
  "single_annotate rs u th =
     (if u \<noteq> session th then
        (case Rating_row rs u (pk th) of
           None \<Rightarrow> Inl Rating_DoesNotExist
         | Some r \<Rightarrow> Inr (th, Some (rank r, vote r)))
      else Inr (th, None))"

subsection \<open>Listings\<close>

text \<open>The threads of a board as \<^verbatim>\<open>list_threads\<close> selects them, before
  pagination: the opening posts of the board, annotated, kept when the viewer created
  them or their rank is positive, by descending rank (the order among equal ranks is
  the database's; the sort here is stable).\<close>

definition board_threads :: "string \<Rightarrow> post list \<Rightarrow> post list" where
  "board_threads b ps = filter (\<lambda>p. board p = b \<and> thread p = None) ps"

definition threads_queryset ::
  "rating list \<Rightarrow> session_key \<Rightarrow> string \<Rightarrow> post list \<Rightarrow> annotated list"
where
  "threads_queryset rs u b ps =
     sort_key (\<lambda>a. - ann_rank a)
       (filter (\<lambda>a. session (post_of a) = u \<or> ann_rank a > 0)
          (multi_annotate rs u (board_threads b ps)))"

text \<open>\<^verbatim>\<open>thread.post_set.all()\<close>: the replies of a thread.\<close>

definition post_set :: "post \<Rightarrow> post list \<Rightarrow> post list" where
  "post_set th ps = filter (\<lambda>p. thread p = Some (pk th)) ps"

text \<open>\<^verbatim>\<open>multi_annotate(user, thread.post_set.all()).exclude(rank__lt=SHADOWBAN_THRESHOLD)\<close>,
  as in \<^verbatim>\<open>list_threads\<close> (which then keeps the first four) and in
  \<^verbatim>\<open>get_thread\<close>.\<close>

definition posts_queryset :: "rating list \<Rightarrow> session_key \<Rightarrow> post \<Rightarrow> post list \<Rightarrow> annotated list" where
  "posts_queryset rs u th ps =
     filter (\<lambda>a. \<not> ann_rank a < SHADOWBAN_THRESHOLD) (multi_annotate rs u (post_set th ps))"

text \<open>\<^verbatim>\<open>Paginator(threads, 10).page(number)\<close>: \<open>None\<close> is InvalidPage. The first
  page is valid also when it is empty.\<close>

definition paginator_page :: "nat \<Rightarrow> int \<Rightarrow> 'a list \<Rightarrow> 'a list option" where
  "paginator_page per_page number xs =
     (let num_pages = max 1 ((length xs + per_page - 1) div per_page)
      in if number < 1 \<or> number > int num_pages then None
         else Some (take per_page (drop ((nat number - 1) * per_page) xs)))"

datatype response =
    Redirect
  | Rendered_threads "(annotated \<times> annotated list) list"
  | Rendered_thread "post \<times> (real \<times> int) option" "annotated list"

text \<open>\<^verbatim>\<open>list_threads\<close> and \<^verbatim>\<open>get_thread\<close> for a request that is not a POST
  (a POST creates a thread or a post and is left to the forms).\<close>

definition list_threads ::
  "env \<Rightarrow> request \<Rightarrow> string \<Rightarrow> int \<Rightarrow> state \<Rightarrow> state \<times> (error + response)"
where
  "list_threads e req b pagenum s =
     (if b \<notin> set (boards s) then (s, Inl Http404)
      else
        (let (s', u) = refresh_rank e req s;
             threads = threads_queryset (ratings s') u b (posts s')
         in case paginator_page 10 pagenum threads of
              None \<Rightarrow> (s', Inr Redirect)
            | Some pg \<Rightarrow>
                (s', Inr (Rendered_threads
                   (map (\<lambda>t. (t, take 4 (posts_queryset (ratings s') u (post_of t) (posts s'))))
                      pg)))))"

definition get_thread ::
  "env \<Rightarrow> request \<Rightarrow> post_id \<Rightarrow> string \<Rightarrow> state \<Rightarrow> state \<times> (error + response)"
where
  "get_thread e req thread_id b s =
     (if b \<notin> set (boards s) then (s, Inl Http404)
      else
        (case find (\<lambda>p. pk p = thread_id) (posts s) of
           None \<Rightarrow> (s, Inl Http404)
         | Some th \<Rightarrow>
             (let (s', u) = refresh_rank e req s
              in case single_annotate (ratings s') u th of
                   Inl err \<Rightarrow> (s', Inl err)
                 | Inr th' \<Rightarrow>
                     (s', Inr (Rendered_thread th'
                        (posts_queryset (ratings s') u th (posts s')))))))"

subsection \<open>post_vote\<close>

text \<open>Python's \<^verbatim>\<open>int\<close> on a string whose characters are code points below 256
  (the characters of \<^typ>\<open>string\<close>): white space around, an optional sign, decimal
  digits, single underscores between digits; \<open>None\<close> is the ValueError. The white space
  that \<^verbatim>\<open>int\<close> strips is the C locale's (9 to 13 and 32) and, of the characters
  above 127, those that Unicode counts as white space (133 and 160); no character from
  128 to 255 is a decimal digit. A string of more than 4300 digits is refused
  (\<^verbatim>\<open>sys.int_info.default_max_str_digits\<close>; an interpreter without the limit
  accepts it).\<close>

definition is_space :: "char \<Rightarrow> bool" where
  "is_space c =
     (let n = (of_char c :: nat) in (9 \<le> n \<and> n \<le> 13) \<or> n = 32 \<or> n = 133 \<or> n = 160)"

definition int_max_str_digits :: nat where
  "int_max_str_digits = 4300"

definition strip :: "string \<Rightarrow> string" where
  "strip s = dropWhile is_space (rev (dropWhile is_space (rev s)))"

definition digit_of :: "char \<Rightarrow> int option" where
  "digit_of c =
     (let n = (of_char c :: nat) in if 48 \<le> n \<and> n \<le> 57 then Some (int n - 48) else None)"

fun parse_digits :: "int \<Rightarrow> string \<Rightarrow> int option" where
  "parse_digits acc [] = Some acc"
| "parse_digits acc (c # cs) =
     (if c = CHR ''_'' then
        (case cs of
           [] \<Rightarrow> None
         | d # ds \<Rightarrow>
             (case digit_of d of
                None \<Rightarrow> None
              | Some v \<Rightarrow> parse_digits (acc * 10 + v) ds))
      else
        (case digit_of c of
           None \<Rightarrow> None
         | Some v \<Rightarrow> parse_digits (acc * 10 + v) cs))"

definition parse_unsigned :: "string \<Rightarrow> int option" where
  "parse_unsigned s =
     (if length (filter (\<lambda>c. c \<noteq> CHR ''_'') s) > int_max_str_digits then None
      else
        (case s of
           [] \<Rightarrow> None
         | d # ds \<Rightarrow> (case digit_of d of None \<Rightarrow> None | Some v \<Rightarrow> parse_digits v ds)))"

definition py_int :: "string \<Rightarrow> int option" where
  "py_int s =
     (case strip s of
        [] \<Rightarrow> None
      | c # cs \<Rightarrow>
          if c = CHR ''-'' then map_option uminus (parse_unsigned cs)
          else if c = CHR ''+'' then parse_unsigned cs
          else parse_unsigned (c # cs))"

text \<open>\<^verbatim>\<open>Rating.objects.get_or_create(user=user, target=target)\<close>: the row of the
  pair, created with the default rank and vote when there is none.\<close>

definition Rating_get_or_create ::
  "session_key \<Rightarrow> post_id \<Rightarrow> rating list \<Rightarrow> rating list \<times> rating"
where
  "Rating_get_or_create u t rs =
     (case Rating_row rs u t of
        Some r \<Rightarrow> (rs, r)
      | None \<Rightarrow>
          (let r = \<lparr>user = u, target = t, rank = Rating_default_rank,
                     vote = Rating_default_vote\<rparr>
           in (rs @ [r], r)))"

text \<open>\<^verbatim>\<open>rating.save()\<close>: the stored row of the pair takes every field of the
  object.\<close>

fun Rating_save :: "rating \<Rightarrow> rating list \<Rightarrow> rating list" where
  "Rating_save r [] = []"
| "Rating_save r (x # xs) =
     (if user x = user r \<and> target x = target r then r # xs else x # Rating_save r xs)"

datatype vote_response = Vote int | Not_allowed

text \<open>The state comes back with the error as well: the row that
  \<^verbatim>\<open>get_or_create\<close> stored stays when \<^verbatim>\<open>int(vote)\<close> raises afterwards.\<close>

definition post_vote :: "request \<Rightarrow> state \<Rightarrow> state \<times> (error + vote_response)" where
  "post_vote req s =
     (case GET req ''vote'' of
        None \<Rightarrow> (s, Inl MultiValueDictKeyError)
      | Some vote_param \<Rightarrow>
     (case GET req ''post'' of
        None \<Rightarrow> (s, Inl MultiValueDictKeyError)
      | Some post_param \<Rightarrow>
     (case py_int post_param of
        None \<Rightarrow> (s, Inl ValueError)
      | Some n \<Rightarrow>
     (case find (\<lambda>p. pk p = n) (posts s) of
        None \<Rightarrow> (s, Inl Post_DoesNotExist)
      | Some tgt \<Rightarrow>
     (case session_key req of
        None \<Rightarrow> (s, Inl Session_DoesNotExist)
      | Some u \<Rightarrow>
          if u \<notin> set (sessions s) then (s, Inl Session_DoesNotExist)
          else
            (let (rs, r) = Rating_get_or_create u (pk tgt) (ratings s);
                 s1 = s\<lparr>ratings := rs\<rparr>
             in if vote_param \<noteq> [] then
                  (case py_int vote_param of
                     None \<Rightarrow> (s1, Inl ValueError)
                   | Some v \<Rightarrow>
                       (let r' = r\<lparr>vote := vote r + (if v = 1 then 1 else - 1)\<rparr>
                        in (s1\<lparr>ratings := Rating_save r' rs\<rparr>, Inr (Vote (vote r')))))
                else (s1, Inr Not_allowed)))))))"

section \<open>Example data\<close>

text \<open>The scenario of the specification: A creates the post P1, B votes +5 on it and
  C votes -2.\<close>

definition scenario_P1 :: post where
  "scenario_P1 = \<lparr>pk = 1, session = ''A'', thread = None, board = ''b''\<rparr>"

definition scenario_vote_B :: rating where
  "scenario_vote_B = \<lparr>user = ''B'', target = 1, rank = 0, vote = 5\<rparr>"

definition scenario_vote_C :: rating where
  "scenario_vote_C = \<lparr>user = ''C'', target = 1, rank = 0, vote = - 2\<rparr>"

text \<open>A board with a thread of A, a reply of A to it, and a thread of B. A has been
  ranked at time 0; the propagation routine of the example gives the reply the score -1
  and every other node the score 0.\<close>

definition cx_thread_B :: post where
  "cx_thread_B = \<lparr>pk = 3, session = ''B'', thread = None, board = ''b''\<rparr>"

definition cx_reply_A :: post where
  "cx_reply_A = \<lparr>pk = 2, session = ''A'', thread = Some 1, board = ''b''\<rparr>"

text \<open>One minute after the last computation, and two hours after it.\<close>

definition cx_env :: env where
  "cx_env = \<lparr>now = 60000000, RANK_DEBUG = False,
     BL_PHT = (\<lambda>G seed a n. if n = PostNode 2 then - 1 else 0),
     new_session_key = ''N''\<rparr>"

definition late_env :: env where
  "late_env = cx_env\<lparr>now := 7200000000\<rparr>"

definition cx_request :: request where
  "cx_request = \<lparr>session_key = Some ''A'', GET = Map.empty\<rparr>"

definition cx_state :: state where
  "cx_state = \<lparr>sessions = [''A'', ''B''], boards = [''b''],
     posts = [scenario_P1, cx_reply_A, cx_thread_B], ratings = [],
     calc_times = [\<lparr>ct_user = ''A'', rank_calc_time = 0\<rparr>]\<rparr>"

text \<open>The same board before A has ever been ranked, and the board with the ranks that
  the example's propagation routine gives stored for A.\<close>

definition first_visit_state :: state where
  "first_visit_state = cx_state\<lparr>calc_times := []\<rparr>"

definition ranked_state :: state where
  "ranked_state = cx_state\<lparr>ratings :=
     [\<lparr>user = ''A'', target = 1, rank = 0, vote = 0\<rparr>,
      \<lparr>user = ''A'', target = 2, rank = - 1, vote = 0\<rparr>,
      \<lparr>user = ''A'', target = 3, rank = 0, vote = 0\<rparr>]\<rparr>"

text \<open>The same board when the rank stored for A and A's reply is the threshold itself.\<close>

definition boundary_state :: state where
  "boundary_state = cx_state\<lparr>ratings :=
     [\<lparr>user = ''A'', target = 2, rank = SHADOWBAN_THRESHOLD, vote = 0\<rparr>]\<rparr>"

text \<open>The same board when A has a rank of 1/4 and a vote of 3 stored for B's thread, and
  a vote request of A.\<close>

definition voted_state :: state where
  "voted_state = cx_state\<lparr>ratings := [\<lparr>user = ''A'', target = 3, rank = 1 / 4, vote = 3\<rparr>]\<rparr>"

definition vote_request :: "string \<Rightarrow> string \<Rightarrow> request" where
  "vote_request vp pp = \<lparr>session_key = Some ''A'', GET = [''vote'' \<mapsto> vp, ''post'' \<mapsto> pp]\<rparr>"

section \<open>Properties\<close>

subsection \<open>The keys of calc_rep\<close>

lemma calc_rep_loop_keys:
  "fst ` set (calc_rep_loop ppr seed ns rep) = fst ` set rep \<union> (set ns - {seed})"
  by (induction ns arbitrary: rep) (auto simp: dom_update)

lemma calc_rep_loop_map_of:
  "map_of (calc_rep_loop ppr seed ns rep) n =
     (if n \<in> set ns \<and> n \<noteq> seed then Some (ppr seed n) else map_of rep n)"
  by (induction ns arbitrary: rep) (auto simp: update_conv)

text \<open>
  C6. For every graph and every seed node, the mapping that \<^verbatim>\<open>calc_rep\<close> returns
  has no entry keyed by the seed and has an entry for every other node of the graph
  (and for nothing else); the entry of a node is what the propagation routine computes
  for it from the seed.
\<close>

theorem calc_rep_keys:
  "seed \<notin> fst ` set (calc_rep B G seed) \<and>
   fst ` set (calc_rep B G seed) = set (nodes G) - {seed} \<and>
   map_of (calc_rep B G seed) n =
     (if n \<in> set (nodes G) \<and> n \<noteq> seed then Some (B G seed seed n) else None)"
  by (simp add: calc_rep_def calc_rep_loop_keys calc_rep_loop_map_of)

subsection \<open>The weights of the built graph\<close>

lemma edges_add_rating_edges_other:
  "(u, t) \<notin> rating_key ` set rs \<Longrightarrow>
   edges (add_rating_edges rs G) (SessionNode u, PostNode t) = edges G (SessionNode u, PostNode t)"
  by (induction rs arbitrary: G) (auto simp: add_edge_def rating_key_def)

lemma edges_add_rating_edges_row:
  "distinct (map rating_key rs) \<Longrightarrow> r \<in> set rs \<Longrightarrow>
   edges (add_rating_edges rs G) (SessionNode (user r), PostNode (target r)) =
     Some (vote_weight (vote r))"
proof (induction rs arbitrary: G)
  case Nil
  then show ?case by simp
next
  case (Cons x xs)
  show ?case
  proof (cases "r = x")
    case True
    from Cons.prems have "(user x, target x) \<notin> rating_key ` set xs"
      by (simp add: rating_key_def)
    then show ?thesis using True
      by (simp add: edges_add_rating_edges_other add_edge_def)
  next
    case False
    with Cons show ?thesis by simp
  qed
qed

text \<open>
  C3. For every vote value \<open>v\<close> recorded in a row of the Rating table (one row per
  pair of user and target), the edge from the row's user to the row's target in the
  built graph has the weight \<open>v\<close> when \<open>v \<ge> 0\<close> and \<open>v * 10\<close> when \<open>v < 0\<close>. Hence
  for votes of equal magnitude \<open>m\<close> the absolute weight of the negative vote is ten
  times that of the positive one.
\<close>

theorem vote_edge_weight:
  "distinct (map rating_key rs) \<Longrightarrow> r \<in> set rs \<Longrightarrow> 0 \<le> m \<Longrightarrow>
   edges (build_graph ps rs) (SessionNode (user r), PostNode (target r)) =
     Some (if vote r \<ge> 0 then vote r else vote r * 10) \<and>
   \<bar>vote_weight (- m)\<bar> = 10 * \<bar>vote_weight m\<bar>"
  by (simp add: build_graph_def edges_add_rating_edges_row vote_weight_def
      NEGATIVE_VOTE_AMPLIFICATION_COEFFICIENT_def)

theorem vote_edge_weight_witness:
  "distinct (map rating_key [scenario_vote_B, scenario_vote_C]) \<and>
   scenario_vote_C \<in> set [scenario_vote_B, scenario_vote_C] \<and> (0::int) \<le> 1 \<and>
   edges (build_graph [scenario_P1] [scenario_vote_B, scenario_vote_C])
     (SessionNode ''C'', PostNode 1) = Some (- 20) \<and>
   \<bar>vote_weight (- 1)\<bar> = 10 * \<bar>vote_weight 1\<bar>"
  using vote_edge_weight [of "[scenario_vote_B, scenario_vote_C]" scenario_vote_C 1 "[scenario_P1]"]
  by (simp add: rating_key_def scenario_vote_B_def scenario_vote_C_def)

subsection \<open>Unfolding the examples\<close>

lemmas ex_defs = cx_state_def cx_env_def cx_request_def scenario_P1_def cx_reply_A_def
  cx_thread_B_def

lemmas refresh_defs = refresh_rank_def request_session_def CalcTime_get_or_create_def
  cache_expired_def timedelta_hours_def recompute_def build_graph_def DiGraph_def add_edge_def
  add_node_def calc_rep_def Rating_default_vote_def vote_weight_def

lemmas py_int_defs = py_int_def strip_def is_space_def parse_unsigned_def digit_of_def
  int_max_str_digits_def

lemmas vote_defs = post_vote_def Rating_get_or_create_def Rating_row_def
  Rating_default_vote_def Rating_default_rank_def

subsection \<open>The early return of refresh_rank\<close>

text \<open>
  C1. For a user with a CalcTime row and with the debug flag off, \<^verbatim>\<open>refresh_rank\<close>
  returns without building the graph exactly when at least one hour has passed since
  \<open>rank_calc_time\<close>, and recomputes (ranks saved, time stamped) while less than an hour
  has passed: the test \<^verbatim>\<open>cache_expired\<close> holds while the cache is fresh. The
  specification asks for the opposite.
\<close>

theorem refresh_rank_early_return:
  "session_key req = Some u \<Longrightarrow> u \<in> set (sessions s) \<Longrightarrow>
   find (\<lambda>c. ct_user c = u) (calc_times s) = Some obj \<Longrightarrow> \<not> RANK_DEBUG e \<Longrightarrow>
   refresh_rank e req s =
     (if timedelta_hours 1 \<le> now e - rank_calc_time obj then (s, u) else (recompute e u s, u))"
  by (simp add: refresh_rank_def request_session_def CalcTime_get_or_create_def cache_expired_def)

text \<open>Two hours after the last computation nothing is recomputed; one minute after it
  everything is.\<close>

theorem refresh_rank_early_return_witness:
  "session_key cx_request = Some ''A'' \<and> ''A'' \<in> set (sessions cx_state) \<and>
   find (\<lambda>c. ct_user c = ''A'') (calc_times cx_state) = Some \<lparr>ct_user = ''A'', rank_calc_time = 0\<rparr> \<and>
   \<not> RANK_DEBUG late_env \<and> now late_env - 0 = 2 * timedelta_hours 1 \<and>
   refresh_rank late_env cx_request cx_state = (cx_state, ''A'') \<and>
   now cx_env - 0 < timedelta_hours 1 \<and>
   calc_times (fst (refresh_rank cx_env cx_request cx_state)) =
     [\<lparr>ct_user = ''A'', rank_calc_time = now cx_env\<rparr>] \<and>
   ratings (fst (refresh_rank cx_env cx_request cx_state)) =
     [\<lparr>user = ''A'', target = 1, rank = 0, vote = 0\<rparr>,
      \<lparr>user = ''A'', target = 2, rank = - 1, vote = 0\<rparr>,
      \<lparr>user = ''A'', target = 3, rank = 0, vote = 0\<rparr>]"
  using refresh_rank_early_return [of cx_request "''A''" cx_state "\<lparr>ct_user = ''A'', rank_calc_time = 0\<rparr>" late_env]
    refresh_rank_early_return [of cx_request "''A''" cx_state "\<lparr>ct_user = ''A'', rank_calc_time = 0\<rparr>" cx_env]
  by (simp add: late_env_def ex_defs refresh_defs)

subsection \<open>The creator's edge into a post\<close>

lemma edges_add_post_edges_author:
  "edges (add_post_edges ps G) (SessionNode c, PostNode k) =
     (if \<exists>p \<in> set ps. session p = c \<and> pk p = k then Some MINIMAL_AUTHOR_VOTE
      else edges G (SessionNode c, PostNode k))"
  by (induction ps arbitrary: G) (auto simp: add_edge_def)

lemma Rating_row_None_iff:
  "Rating_row rs u t = None \<longleftrightarrow> (u, t) \<notin> rating_key ` set rs"
  by (auto simp: Rating_row_def find_None_iff rating_key_def)

lemma Rating_row_Some_mem:
  "Rating_row rs u t = Some r \<Longrightarrow> r \<in> set rs \<and> user r = u \<and> target r = t"
  by (auto simp: Rating_row_def find_Some_iff)

text \<open>What the build step does for the creator's edge: the default weight when the
  Rating table has no row of the creator for the post, and the weight of that row's
  vote when it has one, whatever made the row.\<close>

lemma author_edge_weight:
  assumes "distinct (map rating_key rs)" and "p \<in> set ps"
  shows "edges (build_graph ps rs) (SessionNode (session p), PostNode (pk p)) =
     Some (case Rating_row rs (session p) (pk p) of
             None \<Rightarrow> MINIMAL_AUTHOR_VOTE
           | Some r \<Rightarrow> vote_weight (vote r))"
proof (cases "Rating_row rs (session p) (pk p)")
  case None
  then have "(session p, pk p) \<notin> rating_key ` set rs"
    by (simp add: Rating_row_None_iff)
  then show ?thesis using None assms(2)
    by (auto simp: build_graph_def edges_add_rating_edges_other edges_add_post_edges_author)
next
  case (Some r)
  then have r: "r \<in> set rs" "user r = session p" "target r = pk p"
    by (auto dest: Rating_row_Some_mem)
  from edges_add_rating_edges_row [OF assms(1) r(1)] r Some show ?thesis
    by (simp add: build_graph_def)
qed

text \<open>
  C4. A creates the post 1 and never votes. The graph built from the tables has the
  edge from A to the post with the weight \<^verbatim>\<open>MINIMAL_AUTHOR_VOTE\<close>. Once
  \<^verbatim>\<open>refresh_rank\<close> has run for A (the first time, so the ranks are computed), the Rating table holds A's row for the post (the
  rank, and the default vote 0), and the graph built from then on has the edge from A to
  the post with the weight 0: the row of a rank is read as a vote of 0 and overwrites
  the creator's default weight, although the creator cast no vote.
\<close>

theorem author_edge_after_own_refresh:
  "ratings first_visit_state = [] \<and>
   edges (build_graph (posts first_visit_state) (ratings first_visit_state))
     (SessionNode ''A'', PostNode 1) = Some MINIMAL_AUTHOR_VOTE \<and>
   Rating_row (ratings (fst (refresh_rank cx_env cx_request first_visit_state))) ''A'' 1 =
     Some \<lparr>user = ''A'', target = 1, rank = 0, vote = 0\<rparr> \<and>
   edges (build_graph (posts (fst (refresh_rank cx_env cx_request first_visit_state)))
           (ratings (fst (refresh_rank cx_env cx_request first_visit_state))))
     (SessionNode ''A'', PostNode 1) = Some 0 \<and>
   MINIMAL_AUTHOR_VOTE = 1"
  by (simp add: first_visit_state_def ex_defs refresh_defs Let_def Rating_row_def MINIMAL_AUTHOR_VOTE_def
      POST_TO_USER_VOTE_def)

subsection \<open>Rank and vote do not overwrite each other\<close>

lemma Rating_row_update_or_create:
  "Rating_row (Rating_update_or_create u' t' rk rs) u t =
     (if u = u' \<and> t = t' then
        Some (case Rating_row rs u t of
                Some r \<Rightarrow> r\<lparr>rank := rk\<rparr>
              | None \<Rightarrow> \<lparr>user = u', target = t', rank = rk, vote = Rating_default_vote\<rparr>)
      else Rating_row rs u t)"
  by (induction rs) (auto simp: Rating_row_def)

text \<open>The votes after the loop that saves the ranks: a row that was there keeps its
  vote, and a row is new only for the seed and a post of the mapping.\<close>

lemma vote_save_ranks:
  "map_option vote (Rating_row (save_ranks u' rep rs) u t) =
     (case Rating_row rs u t of
        Some r \<Rightarrow> Some (vote r)
      | None \<Rightarrow> if u = u' \<and> PostNode t \<in> fst ` set rep then Some Rating_default_vote else None)"
proof (induction rep arbitrary: rs)
  case Nil
  then show ?case by (simp split: option.splits)
next
  case (Cons x rep)
  obtain tgt rk where x: "x = (tgt, rk)" by (cases x)
  show ?case
  proof (cases tgt)
    case (SessionNode k)
    with x Cons show ?thesis by (auto split: option.splits)
  next
    case (PostNode t')
    with x Cons show ?thesis
      by (auto simp: Rating_row_update_or_create split: option.splits)
  qed
qed

lemma ratings_refresh_rank:
  "\<exists>u' rep. ratings (fst (refresh_rank e req s)) = save_ranks u' rep (ratings s)"
proof -
  obtain s1 k where sk: "request_session e req s = (s1, k)" by (cases "request_session e req s")
  then have r1: "ratings s1 = ratings s"
    by (auto simp: request_session_def split: option.splits if_splits)
  obtain cts obj created where c: "CalcTime_get_or_create (now e) k (calc_times s1) = (cts, obj, created)"
    by (cases "CalcTime_get_or_create (now e) k (calc_times s1)")
  show ?thesis
  proof (cases "\<not> cache_expired e obj \<and> \<not> created \<and> \<not> RANK_DEBUG e")
    case True
    then have "ratings (fst (refresh_rank e req s)) = save_ranks k [] (ratings s)"
      using sk c r1 by (simp add: refresh_rank_def)
    then show ?thesis by blast
  next
    case False
    then have "ratings (fst (refresh_rank e req s)) =
        save_ranks k (calc_rep (BL_PHT e) (build_graph (posts s1) (ratings s)) (SessionNode k)) (ratings s)"
      using sk c r1 by (auto simp: refresh_rank_def recompute_def Let_def)
    then show ?thesis by blast
  qed
qed

lemma vote_kept_by_refresh_rank:
  "Rating_row (ratings s) u t = Some r \<Longrightarrow>
   map_option vote (Rating_row (ratings (fst (refresh_rank e req s))) u t) = Some (vote r)"
proof -
  assume a: "Rating_row (ratings s) u t = Some r"
  obtain u' rep where "ratings (fst (refresh_rank e req s)) = save_ranks u' rep (ratings s)"
    using ratings_refresh_rank by blast
  then show ?thesis using a by (simp add: vote_save_ranks)
qed

lemma Rating_row_save:
  "Rating_row (Rating_save r' rs) u t =
     (if u = user r' \<and> t = target r' \<and> Rating_row rs u t \<noteq> None then Some r'
      else Rating_row rs u t)"
  by (induction rs) (auto simp: Rating_row_def)

lemma Rating_row_append_new:
  "Rating_row (rs @ [x]) u t =
     (case Rating_row rs u t of
        Some r \<Rightarrow> Some r
      | None \<Rightarrow> if user x = u \<and> target x = t then Some x else None)"
  by (induction rs) (auto simp: Rating_row_def)

lemma Rating_row_key:
  "Rating_row rs u t = Some r \<Longrightarrow> user r = u \<and> target r = t"
  by (auto simp: Rating_row_def find_Some_iff)

lemma rank_kept_by_post_vote:
  "Rating_row (ratings s) u t = Some r \<Longrightarrow>
   map_option rank (Rating_row (ratings (fst (post_vote req s))) u t) = Some (rank r)"
  by (auto simp: post_vote_def Let_def Rating_get_or_create_def Rating_row_save
      Rating_row_append_new dest: Rating_row_key split: option.splits prod.splits if_splits)

lemma keys_update_or_create:
  "map rating_key (Rating_update_or_create u t rk rs) =
     (if (u, t) \<in> rating_key ` set rs then map rating_key rs else map rating_key rs @ [(u, t)])"
  by (induction rs) (auto simp: rating_key_def)

lemma distinct_update_or_create:
  "distinct (map rating_key rs) \<Longrightarrow> distinct (map rating_key (Rating_update_or_create u t rk rs))"
  by (simp add: keys_update_or_create)

lemma distinct_save_ranks:
  "distinct (map rating_key rs) \<Longrightarrow> distinct (map rating_key (save_ranks u rep rs))"
proof (induction rep arbitrary: rs)
  case Nil
  then show ?case by simp
next
  case (Cons x rep)
  obtain tgt rk where x: "x = (tgt, rk)" by (cases x)
  show ?case using Cons x by (cases tgt) (auto simp: distinct_update_or_create)
qed

lemma keys_Rating_save:
  "map rating_key (Rating_save r rs) = map rating_key rs"
  by (induction rs) (auto simp: rating_key_def)

text \<open>One row per pair of user and target: both writers of the Rating table keep it so.\<close>

lemma distinct_ratings_refresh_rank:
  assumes "distinct (map rating_key (ratings s))"
  shows "distinct (map rating_key (ratings (fst (refresh_rank e req s))))"
proof -
  obtain u' rep where "ratings (fst (refresh_rank e req s)) = save_ranks u' rep (ratings s)"
    using ratings_refresh_rank by blast
  then show ?thesis using assms by (simp add: distinct_save_ranks)
qed

lemma distinct_ratings_post_vote:
  assumes "distinct (map rating_key (ratings s))"
  shows "distinct (map rating_key (ratings (fst (post_vote req s))))"
  using assms
  by (auto simp: post_vote_def Let_def Rating_get_or_create_def keys_Rating_save
      Rating_row_None_iff rating_key_def split: option.splits prod.splits if_splits)

text \<open>
  C5. For every pair of user and target that has a Rating row: after
  \<^verbatim>\<open>refresh_rank\<close>, whose last step saves the ranks, the row of the pair has the
  vote it had; and after \<^verbatim>\<open>post_vote\<close>, whatever the request and its outcome, the
  row of the pair has the rank it had.
\<close>

theorem rank_and_vote_frames:
  "Rating_row (ratings s) u t = Some r \<Longrightarrow>
   map_option vote (Rating_row (ratings (fst (refresh_rank e req s))) u t) = Some (vote r) \<and>
   map_option rank (Rating_row (ratings (fst (post_vote req' s))) u t) = Some (rank r)"
  by (simp add: vote_kept_by_refresh_rank rank_kept_by_post_vote)

theorem rank_and_vote_frames_witness:
  "Rating_row (ratings voted_state) ''A'' 3 = Some \<lparr>user = ''A'', target = 3, rank = 1 / 4, vote = 3\<rparr> \<and>
   Rating_row (ratings (fst (refresh_rank cx_env cx_request voted_state))) ''A'' 3 =
     Some \<lparr>user = ''A'', target = 3, rank = 0, vote = 3\<rparr> \<and>
   Rating_row (ratings (fst (post_vote (vote_request ''1'' ''3'') voted_state))) ''A'' 3 =
     Some \<lparr>user = ''A'', target = 3, rank = 1 / 4, vote = 4\<rparr>"
  using rank_and_vote_frames [of voted_state "''A''" 3 "\<lparr>user = ''A'', target = 3, rank = 1 / 4, vote = 3\<rparr>"
      cx_env cx_request "vote_request ''1'' ''3''"]
  by (simp add: voted_state_def vote_request_def ex_defs refresh_defs vote_defs py_int_defs Let_def)

subsection \<open>Annotation: the rank is coalesced, the vote is not\<close>

text \<open>
  C7, as the code has it. For every viewer and post with no Rating row of the pair,
  every item that \<^verbatim>\<open>multi_annotate\<close> produces for the post (the threads and
  replies of the listings) carries the rank 0, a number by the type of \<open>ann_rank\<close>,
  never a null, and the post does get an item. The opening post of a thread page is
  annotated by \<^verbatim>\<open>single_annotate\<close> instead, which gives it no rank and no vote
  when the viewer is its creator.
\<close>

theorem annotate_rank_of_absent_pair:
  "(u, pk p) \<notin> rating_key ` set rs \<Longrightarrow> p \<in> set threads \<Longrightarrow>
   (\<exists>a \<in> set (multi_annotate rs u threads). post_of a = p) \<and>
   (\<forall>a \<in> set (multi_annotate rs u threads). post_of a = p \<longrightarrow> ann_rank a = 0) \<and>
   single_annotate rs (session p) p = Inr (p, None)"
  using Rating_row_None_iff [of rs u "pk p"]
  by (auto simp: multi_annotate_def annotate_row_def Coalesce_def single_annotate_def)

theorem annotate_rank_of_absent_pair_witness:
  "(''A'', pk cx_thread_B) \<notin> rating_key ` set [scenario_vote_B] \<and>
   cx_thread_B \<in> set [scenario_P1, cx_thread_B] \<and>
   map ann_rank (multi_annotate [scenario_vote_B] ''A'' [scenario_P1, cx_thread_B]) = [0, 0] \<and>
   single_annotate [scenario_vote_B] ''B'' cx_thread_B = Inr (cx_thread_B, None)"
  using annotate_rank_of_absent_pair [of "''A''" cx_thread_B "[scenario_vote_B]" "[scenario_P1, cx_thread_B]"]
  by (simp add: multi_annotate_def annotate_row_def Coalesce_def Rating_row_def rating_key_def
      single_annotate_def scenario_vote_B_def scenario_P1_def cx_thread_B_def)

text \<open>The rule of the specification (every displayed item carries a numeric rank, 0 when
  none is stored) fails on the thread page, two hours after A's last computation and
  with no rank stored: A's own thread is shown without a rank, and the page of B's
  thread raises \<^verbatim>\<open>Rating.DoesNotExist\<close> for A.\<close>

theorem single_annotate_counterexample:
  "Rating_row (ratings cx_state) ''A'' (pk cx_thread_B) = None \<and>
   single_annotate (ratings cx_state) ''A'' cx_thread_B = Inl Rating_DoesNotExist \<and>
   get_thread late_env cx_request 3 ''b'' cx_state = (cx_state, Inl Rating_DoesNotExist) \<and>
   Rating_row (ratings cx_state) ''A'' (pk scenario_P1) = None \<and>
   get_thread late_env cx_request 1 ''b'' cx_state =
     (cx_state,
      Inr (Rendered_thread (scenario_P1, None)
        [\<lparr>post_of = cx_reply_A, ann_rank = 0, ann_vote = None\<rparr>]))"
  by (simp add: get_thread_def single_annotate_def late_env_def ex_defs refresh_defs
     multi_annotate_def annotate_row_def Coalesce_def Rating_row_def posts_queryset_def
     post_set_def SHADOWBAN_THRESHOLD_def)

text \<open>
  C10. For a viewer and a reply with no Rating row of the pair, the annotated rank is 0
  and the annotated vote is absent (\<open>None\<close>); the item passes the rank filter of the
  reply listing, so it reaches ordering and display with the absent vote.
\<close>

theorem annotate_vote_left_null:
  "(u, pk p) \<notin> rating_key ` set rs \<Longrightarrow> p \<in> set (post_set th ps) \<Longrightarrow>
   ann_rank (annotate_row rs u p) = 0 \<and> ann_vote (annotate_row rs u p) = None \<and>
   annotate_row rs u p \<in> set (posts_queryset rs u th ps)"
  using Rating_row_None_iff [of rs u "pk p"]
  by (auto simp: posts_queryset_def multi_annotate_def annotate_row_def Coalesce_def
      SHADOWBAN_THRESHOLD_def)

theorem annotate_vote_left_null_witness:
  "(''B'', pk cx_reply_A) \<notin> rating_key ` set [scenario_vote_B] \<and>
   cx_reply_A \<in> set (post_set scenario_P1 [scenario_P1, cx_reply_A]) \<and>
   posts_queryset [scenario_vote_B] ''B'' scenario_P1 [scenario_P1, cx_reply_A] =
     [\<lparr>post_of = cx_reply_A, ann_rank = 0, ann_vote = None\<rparr>]"
  using annotate_vote_left_null [of "''B''" cx_reply_A "[scenario_vote_B]" scenario_P1 "[scenario_P1, cx_reply_A]"]
  by (simp add: posts_queryset_def post_set_def multi_annotate_def annotate_row_def Coalesce_def
      Rating_row_def rating_key_def SHADOWBAN_THRESHOLD_def
      scenario_vote_B_def scenario_P1_def cx_reply_A_def)

subsection \<open>What the listings keep\<close>

text \<open>The threshold is the float next to -1/100, below it.\<close>

lemma SHADOWBAN_THRESHOLD_float:
  "SHADOWBAN_THRESHOLD < - (1 / 100) \<and> - (1 / 100) - 1 / 10 ^ 18 < SHADOWBAN_THRESHOLD"
  by (simp add: SHADOWBAN_THRESHOLD_def)

lemma ann_rank_annotate_row:
  "ann_rank (annotate_row rs u p) = (case Rating_row rs u (pk p) of None \<Rightarrow> 0 | Some r \<Rightarrow> rank r)"
  by (simp add: annotate_row_def Coalesce_def split: option.splits)

lemma post_of_annotate_row: "post_of (annotate_row rs u p) = p"
  by (simp add: annotate_row_def)

lemma threads_queryset_posts:
  "post_of ` set (threads_queryset rs u b ps) =
     {p \<in> set ps. board p = b \<and> thread p = None \<and>
        (session p = u \<or> 0 < ann_rank (annotate_row rs u p))}"
proof -
  have "set (threads_queryset rs u b ps) =
      annotate_row rs u ` {p \<in> set ps. board p = b \<and> thread p = None \<and>
        (session p = u \<or> 0 < ann_rank (annotate_row rs u p))}"
    by (auto simp: threads_queryset_def multi_annotate_def board_threads_def
        post_of_annotate_row)
  then show ?thesis
    by (simp add: image_image post_of_annotate_row)
qed

lemma posts_queryset_posts:
  "post_of ` set (posts_queryset rs u th ps) =
     {p \<in> set ps. thread p = Some (pk th) \<and>
        SHADOWBAN_THRESHOLD \<le> ann_rank (annotate_row rs u p)}"
proof -
  have "set (posts_queryset rs u th ps) =
      annotate_row rs u ` {p \<in> set ps. thread p = Some (pk th) \<and>
        SHADOWBAN_THRESHOLD \<le> ann_rank (annotate_row rs u p)}"
    by (auto simp: posts_queryset_def multi_annotate_def post_set_def)
  then show ?thesis
    by (simp add: image_image post_of_annotate_row)
qed

lemma list_threads_rendered:
  assumes "list_threads e req b n s = (s', Inr (Rendered_threads shown))"
  shows "s' = fst (refresh_rank e req s) \<and>
    paginator_page 10 n (threads_queryset (ratings s') (snd (refresh_rank e req s)) b (posts s')) =
      Some (map fst shown) \<and>
    map snd shown =
      map (\<lambda>t. take 4 (posts_queryset (ratings s') (snd (refresh_rank e req s)) (post_of t) (posts s')))
        (map fst shown)"
  using assms
  by (auto simp: list_threads_def Let_def comp_def split: if_splits prod.splits option.splits)

lemma get_thread_rendered:
  assumes "get_thread e req tid b s = (s', Inr (Rendered_thread th' shown))"
  shows "s' = fst (refresh_rank e req s) \<and>
    find (\<lambda>p. pk p = tid) (posts s) = Some (fst th') \<and>
    shown = posts_queryset (ratings s') (snd (refresh_rank e req s)) (fst th') (posts s')"
  using assms
  by (auto simp: get_thread_def single_annotate_def Let_def
      split: if_splits prod.splits option.splits sum.splits)

text \<open>
  C2, as the code has it. A thread of the board is in the thread listing of
  \<^verbatim>\<open>list_threads\<close> exactly when the viewer created it or a rank strictly greater
  than 0 is stored for the viewer and the thread. A reply of a thread is in the reply
  listing (of \<^verbatim>\<open>list_threads\<close> before the cut to four, and of
  \<^verbatim>\<open>get_thread\<close>) exactly when no rank strictly below
  \<^verbatim>\<open>SHADOWBAN_THRESHOLD\<close>, the float -0.01, is stored for the viewer and the
  reply, whoever created it. What \<^verbatim>\<open>list_threads\<close> renders is a page of that
  thread listing, each thread with the first four of its reply listing, and what
  \<^verbatim>\<open>get_thread\<close> renders, when it does not raise, is the reply listing of the
  thread.
\<close>

theorem listing_filters:
  "p \<in> set ps \<Longrightarrow> board p = b \<Longrightarrow> thread p = None \<Longrightarrow>
   q \<in> set ps \<Longrightarrow> thread q = Some (pk th) \<Longrightarrow>
   (p \<in> post_of ` set (threads_queryset rs u b ps)) =
     (session p = u \<or> (\<exists>r. Rating_row rs u (pk p) = Some r \<and> 0 < rank r)) \<and>
   (q \<in> post_of ` set (posts_queryset rs u th ps)) =
     (\<forall>r. Rating_row rs u (pk q) = Some r \<longrightarrow> SHADOWBAN_THRESHOLD \<le> rank r) \<and>
   (\<forall>s' shown. list_threads e req b n s = (s', Inr (Rendered_threads shown)) \<longrightarrow>
      paginator_page 10 n
        (threads_queryset (ratings s') (snd (refresh_rank e req s)) b (posts s')) =
        Some (map fst shown) \<and>
      map snd shown =
        map (\<lambda>t. take 4
               (posts_queryset (ratings s') (snd (refresh_rank e req s)) (post_of t) (posts s')))
          (map fst shown)) \<and>
   (\<forall>s' th' shown. get_thread e req tid b s = (s', Inr (Rendered_thread th' shown)) \<longrightarrow>
      shown = posts_queryset (ratings s') (snd (refresh_rank e req s)) (fst th') (posts s'))"
proof -
  assume a: "p \<in> set ps" "board p = b" "thread p = None" "q \<in> set ps" "thread q = Some (pk th)"
  have t: "(p \<in> post_of ` set (threads_queryset rs u b ps)) =
     (session p = u \<or> (\<exists>r. Rating_row rs u (pk p) = Some r \<and> 0 < rank r))"
    using a by (auto simp: threads_queryset_posts ann_rank_annotate_row split: option.splits)
  have r: "(q \<in> post_of ` set (posts_queryset rs u th ps)) =
     (\<forall>r. Rating_row rs u (pk q) = Some r \<longrightarrow> SHADOWBAN_THRESHOLD \<le> rank r)"
    using a by (auto simp: posts_queryset_posts ann_rank_annotate_row SHADOWBAN_THRESHOLD_def
        split: option.splits)
  from t r show ?thesis
    using list_threads_rendered [of e req b n s] get_thread_rendered [of e req tid b s]
    by blast
qed

theorem listing_filters_witness:
  "cx_thread_B \<in> set (posts cx_state) \<and> board cx_thread_B = ''b'' \<and> thread cx_thread_B = None \<and>
   cx_reply_A \<in> set (posts cx_state) \<and> thread cx_reply_A = Some (pk scenario_P1) \<and>
   cx_thread_B \<notin> post_of ` set (threads_queryset (ratings boundary_state) ''A'' ''b'' (posts cx_state)) \<and>
   cx_reply_A \<in> post_of ` set (posts_queryset (ratings boundary_state) ''A'' scenario_P1 (posts cx_state)) \<and>
   get_thread late_env cx_request 1 ''b'' boundary_state =
     (boundary_state,
      Inr (Rendered_thread (scenario_P1, None)
        [\<lparr>post_of = cx_reply_A, ann_rank = SHADOWBAN_THRESHOLD, ann_vote = Some 0\<rparr>])) \<and>
   list_threads late_env cx_request ''b'' 1 boundary_state =
     (boundary_state,
      Inr (Rendered_threads
        [(\<lparr>post_of = scenario_P1, ann_rank = 0, ann_vote = None\<rparr>,
          [\<lparr>post_of = cx_reply_A, ann_rank = SHADOWBAN_THRESHOLD, ann_vote = Some 0\<rparr>])]))"
  using listing_filters [where p = cx_thread_B and ps = "posts cx_state" and b = "''b''"
      and q = cx_reply_A and th = scenario_P1 and rs = "ratings boundary_state" and u = "''A''"
      and e = late_env and req = cx_request and n = 1 and s = boundary_state and tid = 1]
  by (simp add: list_threads_def get_thread_def single_annotate_def boundary_state_def late_env_def
     ex_defs refresh_defs threads_queryset_def board_threads_def multi_annotate_def
     annotate_row_def Coalesce_def Rating_row_def paginator_page_def posts_queryset_def
     post_set_def)

text \<open>The rule of the specification (hidden exactly when the rank is below the threshold,
  own content always shown) fails twice on the example board with its ranks stored,
  viewed by A one minute or two hours after the last computation. The thread of
  B has the rank 0, which is not below the threshold, and is not listed: the listing
  shows A's thread only. The reply of A to the thread 1 has the rank -1 and is hidden
  from A, its creator, in the preview of \<^verbatim>\<open>list_threads\<close> and in
  \<^verbatim>\<open>get_thread\<close>.\<close>

theorem listing_counterexample:
  "ratings (fst (list_threads cx_env cx_request ''b'' 1 ranked_state)) = ratings ranked_state \<and>
   map_option rank (Rating_row (ratings ranked_state) ''A'' (pk cx_thread_B)) = Some 0 \<and>
   map_option rank (Rating_row (ratings ranked_state) ''A'' (pk cx_reply_A)) = Some (- 1) \<and>
   snd (list_threads cx_env cx_request ''b'' 1 ranked_state) =
     Inr (Rendered_threads [(\<lparr>post_of = scenario_P1, ann_rank = 0, ann_vote = Some 0\<rparr>, [])]) \<and>
   snd (get_thread cx_env cx_request 1 ''b'' ranked_state) =
     Inr (Rendered_thread (scenario_P1, None) []) \<and>
   snd (list_threads late_env cx_request ''b'' 1 ranked_state) =
     snd (list_threads cx_env cx_request ''b'' 1 ranked_state) \<and>
   snd (get_thread late_env cx_request 1 ''b'' ranked_state) =
     snd (get_thread cx_env cx_request 1 ''b'' ranked_state) \<and>
   session cx_thread_B \<noteq> ''A'' \<and> board cx_thread_B = ''b'' \<and> thread cx_thread_B = None \<and>
   SHADOWBAN_THRESHOLD \<le> 0 \<and>
   session cx_reply_A = ''A'' \<and> thread cx_reply_A = Some (pk scenario_P1)"
  by (simp add: list_threads_def get_thread_def single_annotate_def ranked_state_def late_env_def ex_defs
     refresh_defs threads_queryset_def board_threads_def multi_annotate_def
     annotate_row_def Coalesce_def Rating_row_def paginator_page_def posts_queryset_def
     post_set_def SHADOWBAN_THRESHOLD_def)

subsection \<open>Recording a vote\<close>

text \<open>A control character is not white space for \<^verbatim>\<open>int\<close>; a no-break space
  is.\<close>

lemma py_int_control_char: "py_int [CHR 0x1F, CHR ''1''] = None"
  by (simp add: py_int_defs)

lemma py_int_nbsp: "py_int [CHR 0xA0, CHR ''1'', CHR 0x85] = Some 1"
  by (simp add: py_int_defs)

lemma py_int_nonempty: "py_int vp = Some d \<Longrightarrow> vp \<noteq> []"
  by (auto simp: py_int_def strip_def)

lemma find_pk: "find (\<lambda>p. pk p = n) ps = Some tgt \<Longrightarrow> pk tgt = n"
  by (auto simp: find_Some_iff)

text \<open>What \<^verbatim>\<open>post_vote\<close> does when nothing raises.\<close>

lemma post_vote_ok:
  assumes "GET req ''vote'' = Some vp" and "py_int vp = Some d"
    and "GET req ''post'' = Some pp" and "py_int pp = Some n"
    and "find (\<lambda>p. pk p = n) (posts s) = Some tgt"
    and "session_key req = Some u" and "u \<in> set (sessions s)"
  shows "post_vote req s =
     (let (rs, r) = Rating_get_or_create u n (ratings s);
          r' = r\<lparr>vote := vote r + (if d = 1 then 1 else - 1)\<rparr>
      in (s\<lparr>ratings := Rating_save r' rs\<rparr>, Inr (Vote (vote r'))))"
  using assms py_int_nonempty [OF assms(2)] find_pk [OF assms(5)]
  by (simp add: post_vote_def Let_def split: prod.splits)

text \<open>
  C8. For a known session, an existing target post and a vote parameter whose integer
  value \<open>d\<close> is +1 or -1: \<^verbatim>\<open>post_vote\<close> answers with the stored vote of the pair
  (0 when the pair had no row) plus \<open>d\<close>, the returned state stores that total in the
  row of the pair, and nothing is recomputed: no stored rank changes, and the CalcTime
  and Post tables are as before.
\<close>

theorem post_vote_additive:
  assumes "GET req ''vote'' = Some vp" and "py_int vp = Some d" and "d = 1 \<or> d = - 1"
    and "GET req ''post'' = Some pp" and "py_int pp = Some n"
    and "find (\<lambda>p. pk p = n) (posts s) = Some tgt"
    and "session_key req = Some u" and "u \<in> set (sessions s)"
  shows "snd (post_vote req s) =
           Inr (Vote ((case Rating_row (ratings s) u n of Some r \<Rightarrow> vote r | None \<Rightarrow> 0) + d)) \<and>
         map_option vote (Rating_row (ratings (fst (post_vote req s))) u n) =
           Some ((case Rating_row (ratings s) u n of Some r \<Rightarrow> vote r | None \<Rightarrow> 0) + d) \<and>
         calc_times (fst (post_vote req s)) = calc_times s \<and>
         posts (fst (post_vote req s)) = posts s \<and>
         (\<forall>u' t' x. Rating_row (ratings s) u' t' = Some x \<longrightarrow>
            map_option rank (Rating_row (ratings (fst (post_vote req s))) u' t') = Some (rank x))"
proof -
  have pv: "post_vote req s =
     (let (rs, r) = Rating_get_or_create u n (ratings s);
          r' = r\<lparr>vote := vote r + (if d = 1 then 1 else - 1)\<rparr>
      in (s\<lparr>ratings := Rating_save r' rs\<rparr>, Inr (Vote (vote r'))))"
    using assms by (intro post_vote_ok) auto
  have d: "(if d = 1 then 1 else - 1) = d" using assms(3) by auto
  show ?thesis
    unfolding pv d
    by (auto simp: Let_def Rating_get_or_create_def Rating_row_save Rating_row_append_new
        Rating_default_vote_def dest: Rating_row_key split: option.splits)
qed

text \<open>A downvote of A on the thread 1, for which A has no row yet.\<close>

theorem post_vote_additive_witness:
  "GET (vote_request ''-1'' ''1'') ''vote'' = Some ''-1'' \<and> py_int ''-1'' = Some (- 1) \<and>
   GET (vote_request ''-1'' ''1'') ''post'' = Some ''1'' \<and> py_int ''1'' = Some 1 \<and>
   find (\<lambda>p. pk p = 1) (posts voted_state) = Some scenario_P1 \<and>
   session_key (vote_request ''-1'' ''1'') = Some ''A'' \<and> ''A'' \<in> set (sessions voted_state) \<and>
   Rating_row (ratings voted_state) ''A'' 1 = None \<and>
   post_vote (vote_request ''-1'' ''1'') voted_state =
     (voted_state\<lparr>ratings :=
        [\<lparr>user = ''A'', target = 3, rank = 1 / 4, vote = 3\<rparr>,
         \<lparr>user = ''A'', target = 1, rank = 0, vote = - 1\<rparr>]\<rparr>,
      Inr (Vote (- 1)))"
  using post_vote_additive [of "vote_request ''-1'' ''1''" "''-1''" "- 1" "''1''" 1 voted_state
      scenario_P1 "''A''"]
  by (simp add: voted_state_def vote_request_def ex_defs vote_defs py_int_defs Let_def)

text \<open>
  C9. For a known session, an existing target post and a non-empty vote parameter with
  the integer value \<open>d\<close>: the stored vote goes up by 1 when \<open>d = 1\<close> and down by 1 for
  every other \<open>d\<close>; no value of \<open>d\<close> is refused.
\<close>

theorem post_vote_delta:
  assumes "GET req ''vote'' = Some vp" and "py_int vp = Some d"
    and "GET req ''post'' = Some pp" and "py_int pp = Some n"
    and "find (\<lambda>p. pk p = n) (posts s) = Some tgt"
    and "session_key req = Some u" and "u \<in> set (sessions s)"
  shows "snd (post_vote req s) =
           Inr (Vote ((case Rating_row (ratings s) u n of Some r \<Rightarrow> vote r | None \<Rightarrow> 0) +
                      (if d = 1 then 1 else - 1))) \<and>
         map_option vote (Rating_row (ratings (fst (post_vote req s))) u n) =
           Some ((case Rating_row (ratings s) u n of Some r \<Rightarrow> vote r | None \<Rightarrow> 0) +
                 (if d = 1 then 1 else - 1))"
  unfolding post_vote_ok [OF assms]
  by (auto simp: Let_def Rating_get_or_create_def Rating_row_save Rating_row_append_new
      Rating_default_vote_def dest: Rating_row_key split: option.splits)

text \<open>With a stored vote of 3: the parameters 2, 0 and -5 each give 2, and 1 gives 4.\<close>

theorem post_vote_delta_witness:
  "GET (vote_request ''2'' ''3'') ''vote'' = Some ''2'' \<and> py_int ''2'' = Some 2 \<and>
   GET (vote_request ''2'' ''3'') ''post'' = Some ''3'' \<and> py_int ''3'' = Some 3 \<and>
   find (\<lambda>p. pk p = 3) (posts voted_state) = Some cx_thread_B \<and>
   session_key (vote_request ''2'' ''3'') = Some ''A'' \<and> ''A'' \<in> set (sessions voted_state) \<and>
   map_option vote (Rating_row (ratings voted_state) ''A'' 3) = Some 3 \<and>
   snd (post_vote (vote_request ''2'' ''3'') voted_state) = Inr (Vote 2) \<and>
   snd (post_vote (vote_request ''0'' ''3'') voted_state) = Inr (Vote 2) \<and>
   snd (post_vote (vote_request ''-5'' ''3'') voted_state) = Inr (Vote 2) \<and>
   snd (post_vote (vote_request ''1'' ''3'') voted_state) = Inr (Vote 4)"
  using post_vote_delta [of "vote_request ''2'' ''3''" "''2''" 2 "''3''" 3 voted_state
      cx_thread_B "''A''"]
  by (simp add: voted_state_def vote_request_def ex_defs vote_defs py_int_defs Let_def)

end
